theory Spec2Isabelle
  imports Complex_Main
begin

section \<open>Strings\<close>

text \<open>
  The solver of \<^verbatim>\<open>src/backend/ai_solver.py\<close> works on Python strings, which are
  sequences of code points. An input is a \<^typ>\<open>string\<close> whose characters stand for the
  code points 0 to 255 (a \<^typ>\<open>char\<close> with code \<open>n\<close> is the code point \<open>n\<close>), and on
  this range \<^verbatim>\<open>str.lower\<close>, \<^verbatim>\<open>\d\<close> and \<^verbatim>\<open>\s\<close> are written out
  below. The texts the solver returns use code points beyond 255 (the Greek letters
  and the infinity sign of its templates), so a returned text is a list of code points.
\<close>

type_synonym ustr = "nat list"

definition u :: "string \<Rightarrow> ustr" where
  "u s = map of_char s"

text \<open>\<^verbatim>\<open>sep.join(xs)\<close>\<close>

fun join :: "'a list \<Rightarrow> 'a list list \<Rightarrow> 'a list" where
  "join sep [] = []"
| "join sep [x] = x"
| "join sep (x # y # ys) = x @ sep @ join sep (y # ys)"

text \<open>\<^verbatim>\<open>c.lower()\<close> on the code points 0 to 255: the letters A to Z and the capital
  letters 0xC0 to 0xDE (the multiplication sign 0xD7 apart) move up by 32.\<close>

definition lower_char :: "char \<Rightarrow> char" where
  "lower_char c =
     (let n = (of_char c :: nat)
      in if (65 \<le> n \<and> n \<le> 90) \<or> (192 \<le> n \<and> n \<le> 222 \<and> n \<noteq> 215)
         then char_of (n + 32) else c)"

definition lower :: "string \<Rightarrow> string" where
  "lower s = map lower_char s"

text \<open>\<^verbatim>\<open>s.startswith(p)\<close> and the substring test \<^verbatim>\<open>sub in s\<close>.\<close>

fun startswith :: "string \<Rightarrow> string \<Rightarrow> bool" where
  "startswith s [] = True"
| "startswith [] (p # ps) = False"
| "startswith (c # cs) (p # ps) = (c = p \<and> startswith cs ps)"

fun py_in :: "string \<Rightarrow> string \<Rightarrow> bool" where
  "py_in sub [] = (sub = [])"
| "py_in sub (c # cs) = (startswith (c # cs) sub \<or> py_in sub cs)"

text \<open>\<^verbatim>\<open>any(keyword in s for keyword in keywords)\<close>\<close>

definition any_in :: "string list \<Rightarrow> string \<Rightarrow> bool" where
  "any_in keywords s = list_ex (\<lambda>keyword. py_in keyword s) keywords"

subsection \<open>The regular expressions\<close>

text \<open>\<^verbatim>\<open>\d\<close> and \<^verbatim>\<open>\s\<close> of a \<^verbatim>\<open>str\<close> pattern, on the code points 0 to 255.\<close>

definition isdigit :: "char \<Rightarrow> bool" where
  "isdigit c = (c \<in> set ''0123456789'')"

definition isspace :: "char \<Rightarrow> bool" where
  "isspace c = ((of_char c :: nat) \<in> set [9, 10, 11, 12, 13, 28, 29, 30, 31, 32, 133, 160])"

text \<open>\<^verbatim>\<open>re.findall(r'\d+', s)\<close>: the maximal runs of digits, from left to right.\<close>

function findall_digits :: "string \<Rightarrow> string list" where
  "findall_digits [] = []"
| "findall_digits (c # cs) =
     (if isdigit c then (c # takeWhile isdigit cs) # findall_digits (dropWhile isdigit cs)
      else findall_digits cs)"
  by pat_completeness auto
termination
  by (relation "measure length") (auto simp: less_Suc_eq_le length_dropWhile_le)

text \<open>
  \<^verbatim>\<open>re.search(r'(\d+)\s*[ops]\s*(\d+)', s)\<close> for a class \<open>ops\<close> of operator characters:
  \<open>match_here\<close> is a match that starts at the head of the string, \<open>re_search\<close> tries every
  start. A digit is neither white space nor an operator, so the first group takes the whole
  run of digits and each \<^verbatim>\<open>\s*\<close> the whole run of white space.
\<close>

definition match_here :: "string \<Rightarrow> string \<Rightarrow> bool" where
  "match_here ops s =
     (case s of
        [] \<Rightarrow> False
      | c # cs \<Rightarrow>
          isdigit c \<and>
          (case dropWhile isspace (dropWhile isdigit cs) of
             [] \<Rightarrow> False
           | x # r \<Rightarrow>
               x \<in> set ops \<and>
               (case dropWhile isspace r of [] \<Rightarrow> False | d # _ \<Rightarrow> isdigit d)))"

fun re_search :: "string \<Rightarrow> string \<Rightarrow> bool" where
  "re_search ops [] = False"
| "re_search ops (c # cs) = (match_here ops (c # cs) \<or> re_search ops cs)"

section \<open>Numbers\<close>

text \<open>
  \<^verbatim>\<open>int(s)\<close> on a run of digits and \<^verbatim>\<open>str(n)\<close>. Python's integers are unbounded;
  the limit some interpreters put on the number of digits of a conversion is not modelled.
\<close>

definition digit_val :: "char \<Rightarrow> int" where
  "digit_val c = int (of_char c) - 48"

definition int_of_digits :: "string \<Rightarrow> int" where
  "int_of_digits s = foldl (\<lambda>a c. 10 * a + digit_val c) 0 s"

function show_nat :: "int \<Rightarrow> string" where
  "show_nat n = (if n < 10 then [char_of (48 + n)] else show_nat (n div 10) @ [char_of (48 + n mod 10)])"
  by pat_completeness auto
termination
  by (relation "measure nat") auto

declare show_nat.simps [simp del]

definition show_int :: "int \<Rightarrow> string" where
  "show_int i = (if i < 0 then CHR ''-'' # show_nat (- i) else show_nat i)"

subsection \<open>Exceptions\<close>

datatype exn =
    ZeroDivisionError string
  | OverflowError string
  | IndexError string

text \<open>\<^verbatim>\<open>str(e)\<close>\<close>

fun exn_str :: "exn \<Rightarrow> string" where
  "exn_str (ZeroDivisionError m) = m"
| "exn_str (OverflowError m) = m"
| "exn_str (IndexError m) = m"

text \<open>\<^verbatim>\<open>xs[i]\<close>\<close>

definition index :: "'a list \<Rightarrow> nat \<Rightarrow> exn + 'a" where
  "index xs i = (if i < length xs then Inr (xs ! i) else Inl (IndexError ''list index out of range''))"

definition bind :: "exn + 'a \<Rightarrow> ('a \<Rightarrow> exn + 'b) \<Rightarrow> exn + 'b" where
  "bind m f = (case m of Inl e \<Rightarrow> Inl e | Inr x \<Rightarrow> f x)"

subsection \<open>Floats\<close>

text \<open>
  A Python float is an IEEE 754 binary64 number. A finite one is the rational it denotes;
  the sign of a zero is not kept (the solver only formats zeros it got from \<open>0 / b\<close>).
  Every operation rounds its exact result to the nearest float, ties to the even
  significand.
\<close>

datatype pyfloat = Finite rat | PosInf | NegInf | NaN

text \<open>The number of bits of a positive integer.\<close>

function bitlen :: "int \<Rightarrow> int" where
  "bitlen n = (if n \<le> 0 then 0 else 1 + bitlen (n div 2))"
  by pat_completeness auto
termination
  by (relation "measure nat") auto

declare bitlen.simps [simp del]

definition pow2 :: "int \<Rightarrow> rat" where
  "pow2 e = (if 0 \<le> e then 2 ^ nat e else 1 / 2 ^ nat (- e))"

text \<open>The largest \<open>e\<close> with \<open>2 ^ e \<le> x\<close>, for a positive \<open>x\<close>.\<close>

definition floor_log2 :: "rat \<Rightarrow> int" where
  "floor_log2 x =
     (let (p, q) = quotient_of x;
          e = bitlen p - bitlen q
      in if pow2 e \<le> x then e else e - 1)"

definition round_half_even :: "rat \<Rightarrow> int" where
  "round_half_even r =
     (let f = \<lfloor>r\<rfloor>; d = r - of_int f
      in if d < 1 / 2 then f
         else if 1 / 2 < d then f + 1
         else if even f then f else f + 1)"

text \<open>
  The float nearest to a rational: 53 significant bits, a quantum of at least \<open>2 ^ - 1074\<close>,
  and an infinity when the rounded value reaches \<open>2 ^ 1024\<close>.
\<close>

definition round_to_double :: "rat \<Rightarrow> pyfloat" where
  "round_to_double x =
     (if x = 0 then Finite 0
      else let q = pow2 (max (floor_log2 \<bar>x\<bar> - 52) (- 1074));
               y = of_int (round_half_even (x / q)) * q
           in if 2 ^ 1024 \<le> \<bar>y\<bar> then (if 0 < x then PosInf else NegInf) else Finite y)"

text \<open>\<^verbatim>\<open>a / b\<close> on two integers\<close>

definition int_truediv :: "int \<Rightarrow> int \<Rightarrow> exn + pyfloat" where
  "int_truediv a b =
     (if b = 0 then Inl (ZeroDivisionError ''division by zero'')
      else case round_to_double (of_int a / of_int b) of
             Finite y \<Rightarrow> Inr (Finite y)
           | _ \<Rightarrow> Inl (OverflowError ''integer division result too large for a float''))"

text \<open>\<^verbatim>\<open>float(n)\<close>, the conversion of the integer operand of a mixed operation\<close>

definition float_of_int :: "int \<Rightarrow> exn + pyfloat" where
  "float_of_int n =
     (case round_to_double (of_int n) of
        Finite y \<Rightarrow> Inr (Finite y)
      | _ \<Rightarrow> Inl (OverflowError ''int too large to convert to float''))"

text \<open>\<^verbatim>\<open>x * y\<close> and \<^verbatim>\<open>x + y\<close> on two floats: no exception, an overflow is an infinity.\<close>

fun float_mul :: "pyfloat \<Rightarrow> pyfloat \<Rightarrow> pyfloat" where
  "float_mul (Finite a) (Finite b) = round_to_double (a * b)"
| "float_mul NaN _ = NaN"
| "float_mul _ NaN = NaN"
| "float_mul PosInf (Finite b) = (if b = 0 then NaN else if 0 < b then PosInf else NegInf)"
| "float_mul NegInf (Finite b) = (if b = 0 then NaN else if 0 < b then NegInf else PosInf)"
| "float_mul (Finite a) PosInf = (if a = 0 then NaN else if 0 < a then PosInf else NegInf)"
| "float_mul (Finite a) NegInf = (if a = 0 then NaN else if 0 < a then NegInf else PosInf)"
| "float_mul PosInf PosInf = PosInf"
| "float_mul NegInf NegInf = PosInf"
| "float_mul PosInf NegInf = NegInf"
| "float_mul NegInf PosInf = NegInf"

fun float_add :: "pyfloat \<Rightarrow> pyfloat \<Rightarrow> pyfloat" where
  "float_add (Finite a) (Finite b) = round_to_double (a + b)"
| "float_add NaN _ = NaN"
| "float_add _ NaN = NaN"
| "float_add PosInf NegInf = NaN"
| "float_add NegInf PosInf = NaN"
| "float_add PosInf _ = PosInf"
| "float_add NegInf _ = NegInf"
| "float_add (Finite a) PosInf = PosInf"
| "float_add (Finite a) NegInf = NegInf"

text \<open>\<^verbatim>\<open>x * n\<close> and \<^verbatim>\<open>x + n\<close> on a float and an integer: the integer is converted first.\<close>

definition float_mul_int :: "pyfloat \<Rightarrow> int \<Rightarrow> exn + pyfloat" where
  "float_mul_int x n = bind (float_of_int n) (\<lambda>y. Inr (float_mul x y))"

definition float_add_int :: "pyfloat \<Rightarrow> int \<Rightarrow> exn + pyfloat" where
  "float_add_int x n = bind (float_of_int n) (\<lambda>y. Inr (float_add x y))"

text \<open>\<^verbatim>\<open>math.pi\<close>, the float \<open>0x1.921fb54442d18p+1\<close>\<close>

definition math_pi :: pyfloat where
  "math_pi = Finite (884279719003555 / 281474976710656)"

text \<open>
  \<^verbatim>\<open>f'{x:.nf}'\<close>: the exact value of the float rounded to \<open>n\<close> decimals, ties to the
  even digit.
\<close>

definition zfill :: "nat \<Rightarrow> string \<Rightarrow> string" where
  "zfill n s = replicate (n - length s) CHR ''0'' @ s"

definition format_f :: "nat \<Rightarrow> pyfloat \<Rightarrow> string" where
  "format_f n x =
     (case x of
        PosInf \<Rightarrow> ''inf''
      | NegInf \<Rightarrow> ''-inf''
      | NaN \<Rightarrow> ''nan''
      | Finite r \<Rightarrow>
          (let m = round_half_even (\<bar>r\<bar> * 10 ^ n)
           in (if r < 0 then ''-'' else []) @ show_nat (m div 10 ^ n) @
              (if n = 0 then [] else ''.'' @ zfill n (show_nat (m mod 10 ^ n)))))"

text \<open>
  \<^verbatim>\<open>str(x)\<close> of a float: the shortest decimal that reads back as \<open>x\<close>, the nearest
  to \<open>x\<close> among those (a tie goes to the even last digit), in exponent notation when the
  decimal point would stand more than 16 digits to the right of the first digit or
  more than 3 zeros to its left.
\<close>

definition pow10 :: "int \<Rightarrow> rat" where
  "pow10 e = (if 0 \<le> e then 10 ^ nat e else 1 / 10 ^ nat (- e))"

text \<open>The largest \<open>e\<close> with \<open>10 ^ e \<le> x\<close>, for a positive \<open>x\<close>.\<close>

definition floor_log10 :: "rat \<Rightarrow> int" where
  "floor_log10 x =
     (let (p, q) = quotient_of x;
          e = int (length (show_nat p)) - int (length (show_nat q))
      in if pow10 e \<le> x then e else e - 1)"

definition reads_as :: "rat \<Rightarrow> rat \<Rightarrow> bool" where
  "reads_as x d = (round_to_double d = Finite x)"

text \<open>The decimal \<open>m * 10 ^ k\<close> of \<open>n\<close> digits that reads back as \<open>x\<close>, if there is one.\<close>

definition decimal_of_digits :: "rat \<Rightarrow> nat \<Rightarrow> (int \<times> int) option" where
  "decimal_of_digits x n =
     (let k = floor_log10 x - int n + 1;
          lo = \<lfloor>x / pow10 k\<rfloor>;
          hi = lo + 1;
          oklo = reads_as x (of_int lo * pow10 k);
          okhi = reads_as x (of_int hi * pow10 k);
          dlo = x - of_int lo * pow10 k;
          dhi = of_int hi * pow10 k - x
      in if oklo \<and> (\<not> okhi \<or> dlo < dhi \<or> (dlo = dhi \<and> even lo)) then Some (lo, k)
         else if okhi then Some (hi, k)
         else None)"

text \<open>The first of the lengths \<open>n\<close>, \<open>n + 1\<close>, ... that has such a decimal; 17 digits
  always do.\<close>

fun shortest_decimal :: "rat \<Rightarrow> nat \<Rightarrow> nat \<Rightarrow> int \<times> int" where
  "shortest_decimal x n 0 = (0, 0)"
| "shortest_decimal x n (Suc fuel) =
     (case decimal_of_digits x n of
        Some d \<Rightarrow> d
      | None \<Rightarrow> shortest_decimal x (Suc n) fuel)"

function strip_zeros :: "int \<times> int \<Rightarrow> int \<times> int" where
  "strip_zeros (m, k) = (if m \<noteq> 0 \<and> m mod 10 = 0 then strip_zeros (m div 10, k + 1) else (m, k))"
  by pat_completeness auto
termination
  by (relation "measure (\<lambda>(m, k). nat \<bar>m\<bar>)") auto

declare strip_zeros.simps [simp del]

definition float_str_pos :: "rat \<Rightarrow> string" where
  "float_str_pos x =
     (let (m, k) = strip_zeros (shortest_decimal x 1 17);
          digits = show_nat m;
          decpt = int (length digits) + k
      in if decpt \<le> - 4 \<or> 16 < decpt then
           take 1 digits @ (if 1 < length digits then ''.'' @ drop 1 digits else []) @ ''e'' @
           (if decpt - 1 < 0 then ''-'' else ''+'') @ zfill 2 (show_nat \<bar>decpt - 1\<bar>)
         else if decpt \<le> 0 then ''0.'' @ replicate (nat (- decpt)) CHR ''0'' @ digits
         else if int (length digits) \<le> decpt then
           digits @ replicate (nat decpt - length digits) CHR ''0'' @ ''.0''
         else take (nat decpt) digits @ ''.'' @ drop (nat decpt) digits)"

definition float_str :: "pyfloat \<Rightarrow> string" where
  "float_str x =
     (case x of
        PosInf \<Rightarrow> ''inf''
      | NegInf \<Rightarrow> ''-inf''
      | NaN \<Rightarrow> ''nan''
      | Finite r \<Rightarrow>
          if r = 0 then ''0.0''
          else if r < 0 then ''-'' @ float_str_pos (- r)
          else float_str_pos r)"

subsection \<open>The clock\<close>

text \<open>
  \<^verbatim>\<open>datetime.now()\<close> is an input of the model: the reading of the clock that the call
  gets. \<^verbatim>\<open>strftime\<close> is written out for the directives the solver uses, with the
  English names of the C locale.
\<close>

record datetime =
  year :: int
  month :: int
  day :: int
  hour :: int
  minute :: int
  second :: int

definition is_leap :: "int \<Rightarrow> bool" where
  "is_leap y = (y mod 4 = 0 \<and> (y mod 100 \<noteq> 0 \<or> y mod 400 = 0))"

definition days_before_year :: "int \<Rightarrow> int" where
  "days_before_year y = (y - 1) * 365 + (y - 1) div 4 - (y - 1) div 100 + (y - 1) div 400"

definition days_before_month :: "int \<Rightarrow> int \<Rightarrow> int" where
  "days_before_month y m =
     [0, 31, 59, 90, 120, 151, 181, 212, 243, 273, 304, 334] ! nat (m - 1) +
     (if 2 < m \<and> is_leap y then 1 else 0)"

text \<open>\<^verbatim>\<open>weekday()\<close>: Monday is 0.\<close>

definition weekday :: "datetime \<Rightarrow> int" where
  "weekday d = (days_before_year (year d) + days_before_month (year d) (month d) + day d + 6) mod 7"

definition day_names :: "string list" where
  "day_names = [''Monday'', ''Tuesday'', ''Wednesday'', ''Thursday'', ''Friday'', ''Saturday'', ''Sunday'']"

definition month_names :: "string list" where
  "month_names = [''January'', ''February'', ''March'', ''April'', ''May'', ''June'', ''July'',
     ''August'', ''September'', ''October'', ''November'', ''December'']"

definition directive :: "datetime \<Rightarrow> char \<Rightarrow> string" where
  "directive d c =
     (if c = CHR ''H'' then zfill 2 (show_nat (hour d))
      else if c = CHR ''M'' then zfill 2 (show_nat (minute d))
      else if c = CHR ''S'' then zfill 2 (show_nat (second d))
      else if c = CHR ''I'' then zfill 2 (show_nat ((hour d + 11) mod 12 + 1))
      else if c = CHR ''p'' then (if hour d < 12 then ''AM'' else ''PM'')
      else if c = CHR ''Y'' then zfill 4 (show_nat (year d))
      else if c = CHR ''m'' then zfill 2 (show_nat (month d))
      else if c = CHR ''d'' then zfill 2 (show_nat (day d))
      else if c = CHR ''A'' then day_names ! nat (weekday d)
      else if c = CHR ''B'' then month_names ! nat (month d - 1)
      else [CHR ''%'', c])"

fun strftime :: "datetime \<Rightarrow> string \<Rightarrow> string" where
  "strftime d [] = []"
| "strftime d [c] = [c]"
| "strftime d (c # e # cs) =
     (if c = CHR ''%'' then directive d e @ strftime d cs else c # strftime d (e # cs))"

section \<open>The solver\<close>

subsection \<open>Solutions\<close>

text \<open>
  A handler returns a dictionary with the keys \<^verbatim>\<open>answer\<close>, \<^verbatim>\<open>explanation\<close> and
  \<^verbatim>\<open>type\<close>, and for some templates one of \<^verbatim>\<open>details\<close>, \<^verbatim>\<open>formula\<close> and
  \<^verbatim>\<open>language\<close>. The answer is a string, an integer or a float.
\<close>

datatype pyval = VInt int | VFloat pyfloat | VStr ustr

record solution =
  answer :: pyval
  explanation :: ustr
  type :: ustr
  details :: "ustr option"
  formula :: "ustr option"
  language :: "ustr option"

definition dict :: "pyval \<Rightarrow> ustr \<Rightarrow> ustr \<Rightarrow> solution" where
  "dict a e t = \<lparr>answer = a, explanation = e, type = t,
     details = None, formula = None, language = None\<rparr>"

subsection \<open>\<^verbatim>\<open>extract_number\<close> and \<^verbatim>\<open>extract_numbers\<close>\<close>

definition extract_number :: "string \<Rightarrow> int" where
  "extract_number text =
     (let numbers = findall_digits text
      in if numbers \<noteq> [] then int_of_digits (hd numbers) else 1)"

definition extract_numbers :: "string \<Rightarrow> int list" where
  "extract_numbers text = map int_of_digits (findall_digits text)"

subsection \<open>\<^verbatim>\<open>solve_math_problem\<close>\<close>

text \<open>
  The body of the \<^verbatim>\<open>try\<close> is a sequence of blocks. A block returns a solution
  (\<open>Inr (Some s)\<close>), raises (\<open>Inl e\<close>), or is left without a result (\<open>Inr None\<close>) and
  the next block runs.
\<close>

definition indeterminate_form :: solution where
  "indeterminate_form =
     (dict (VStr (u ''Indeterminate form (0/0)''))
        (u ''0 divided by 0 is undefined and considered an indeterminate form in mathematics. It requires limit analysis for proper evaluation.'')
        (u ''mathematics''))
     \<lparr>details := Some (u ''Use L'H'' @ [0xF4] @ u ''pital's rule or algebraic manipulation for limits'')\<rparr>"

definition infinity_solution :: solution where
  "infinity_solution =
     (dict (VStr ([0x221E] @ u '' (Infinity)''))
        (u ''Infinity represents an unbounded quantity larger than any real number.'')
        (u ''mathematics''))
     \<lparr>details := Some (u ''Infinity operations: '' @ [0x221E] @ u '' + a = '' @ [0x221E] @ u '', '' @
        [0x221E] @ u '' '' @ [0xD7] @ u '' '' @ [0x221E] @ u '' = '' @ [0x221E] @ u '', a/'' @
        [0x221E] @ u '' = 0'')\<rparr>"

definition special_cases :: "string \<Rightarrow> exn + solution option" where
  "special_cases problem =
     (if py_in ''0/0'' problem then Inr (Some indeterminate_form)
      else if py_in ''infinity'' (lower problem) then Inr (Some infinity_solution)
      else Inr None)"

definition basic_arithmetic :: "string \<Rightarrow> exn + solution option" where
  "basic_arithmetic problem =
     (if re_search ''+-'' problem then
        (let numbers = findall_digits problem
         in if py_in ''+'' problem then
              (let result = sum_list (map int_of_digits numbers)
               in Inr (Some (dict (VInt result)
                    (u ''Addition: '' @ u (join '' + '' numbers) @ u '' = '' @ u (show_int result))
                    (u ''arithmetic''))))
            else if py_in ''-'' problem then
              bind (index numbers 0) (\<lambda>n0.
              bind (index numbers 1) (\<lambda>n1.
                let result = int_of_digits n0 - int_of_digits n1
                in Inr (Some (dict (VInt result)
                     (u ''Subtraction: '' @ u n0 @ u '' - '' @ u n1 @ u '' = '' @ u (show_int result))
                     (u ''arithmetic'')))))
            else Inr None)
      else Inr None)"

definition multiplication_and_division :: "string \<Rightarrow> exn + solution option" where
  "multiplication_and_division problem =
     (if re_search ''*/'' problem then
        (let numbers = findall_digits problem
         in if py_in ''*'' problem then
              bind (index numbers 0) (\<lambda>n0.
              bind (index numbers 1) (\<lambda>n1.
                let result = int_of_digits n0 * int_of_digits n1
                in Inr (Some (dict (VInt result)
                     (u ''Multiplication: '' @ u n0 @ u '' '' @ [0xD7] @ u '' '' @ u n1 @ u '' = '' @
                      u (show_int result))
                     (u ''arithmetic'')))))
            else if py_in ''/'' problem then
              bind (index numbers 1) (\<lambda>n1.
                if n1 \<noteq> ''0'' then
                  bind (index numbers 0) (\<lambda>n0.
                  bind (index numbers 1) (\<lambda>n1.
                  bind (int_truediv (int_of_digits n0) (int_of_digits n1)) (\<lambda>result.
                    Inr (Some (dict (VFloat result)
                      (u ''Division: '' @ u n0 @ u '' '' @ [0xF7] @ u '' '' @ u n1 @ u '' = '' @
                       u (float_str result))
                      (u ''arithmetic''))))))
                else Inr None)
            else Inr None)
      else Inr None)"

definition area_calculations :: "string \<Rightarrow> exn + solution option" where
  "area_calculations problem =
     (if py_in ''area'' (lower problem) then
        (if py_in ''circle'' (lower problem) then
           (let radius = extract_number problem
            in bind (float_mul_int math_pi (radius ^ 2)) (\<lambda>area.
                 Inr (Some (dict (VStr (u (format_f 2 area)))
                   (u ''Area of circle with radius '' @ u (show_int radius) @ u '' = '' @ [0x3C0] @
                    u '' '' @ [0xD7] @ u '' r'' @ [0xB2] @ u '' = '' @ u (format_f 2 math_pi) @
                    u '' '' @ [0xD7] @ u '' '' @ u (show_int radius) @ [0xB2])
                   (u ''geometry'')))))
         else if py_in ''rectangle'' (lower problem) then
           (let numbers = findall_digits problem
            in if 2 \<le> length numbers then
                 bind (index numbers 0) (\<lambda>n0.
                 bind (index numbers 1) (\<lambda>n1.
                   let area = int_of_digits n0 * int_of_digits n1
                   in Inr (Some (dict (VInt area)
                        (u ''Area of rectangle: '' @ u n0 @ u '' '' @ [0xD7] @ u '' '' @ u n1 @
                         u '' = '' @ u (show_int area))
                        (u ''geometry'')))))
               else Inr None)
         else Inr None)
      else Inr None)"

definition percentage_calculations :: "string \<Rightarrow> exn + solution option" where
  "percentage_calculations problem =
     (if py_in ''%'' problem \<or> py_in ''percent'' (lower problem) then
        (let numbers = findall_digits problem
         in if 2 \<le> length numbers then
              bind (index numbers 0) (\<lambda>n0.
              bind (index numbers 1) (\<lambda>n1.
              bind (int_truediv (int_of_digits n0) (int_of_digits n1)) (\<lambda>q.
              bind (float_mul_int q 100) (\<lambda>percentage.
                Inr (Some (dict (VStr (u (format_f 1 percentage) @ u ''%''))
                  (u ''Percentage: ('' @ u n0 @ u '' '' @ [0xF7] @ u '' '' @ u n1 @ u '') '' @ [0xD7] @
                   u '' 100 = '' @ u (format_f 1 percentage) @ u ''%'')
                  (u ''mathematics'')))))))
            else Inr None)
      else Inr None)"

text \<open>The blocks in the order of the source: the first result or exception ends the body.\<close>

fun cascade :: "(string \<Rightarrow> exn + solution option) list \<Rightarrow> string \<Rightarrow> exn + solution option" where
  "cascade [] problem = Inr None"
| "cascade (block # blocks) problem =
     (case block problem of
        Inl e \<Rightarrow> Inl e
      | Inr (Some s) \<Rightarrow> Inr (Some s)
      | Inr None \<Rightarrow> cascade blocks problem)"

definition solve_math_try :: "string \<Rightarrow> exn + solution option" where
  "solve_math_try problem =
     cascade [special_cases, basic_arithmetic, multiplication_and_division,
              area_calculations, percentage_calculations] problem"

definition unable_to_solve :: "exn \<Rightarrow> solution" where
  "unable_to_solve e =
     dict (VStr (u ''Unable to solve'')) (u ''Error in calculation: '' @ u (exn_str e)) (u ''error'')"

definition complex_problem :: solution where
  "complex_problem =
     dict (VStr (u ''Complex mathematical problem''))
       (u ''This requires advanced mathematical analysis.'') (u ''mathematics'')"

definition solve_math_problem :: "string \<Rightarrow> solution" where
  "solve_math_problem problem =
     (case solve_math_try problem of
        Inl e \<Rightarrow> unable_to_solve e
      | Inr (Some s) \<Rightarrow> s
      | Inr None \<Rightarrow> complex_problem)"

subsection \<open>\<^verbatim>\<open>solve_physics_problem\<close>\<close>

definition solve_physics_problem :: "string \<Rightarrow> solution" where
  "solve_physics_problem problem =
     (let problem_lower = lower problem
      in if py_in ''velocity'' problem_lower then
           (dict (VStr (u ''v = d/t''))
              (u ''Velocity = distance '' @ [0xF7] @ u '' time'')
              (u ''physics''))
           \<lparr>formula := Some (u ''v = '' @ [0x394] @ u ''x/'' @ [0x394] @ u ''t'')\<rparr>
         else if py_in ''acceleration'' problem_lower then
           (dict (VStr (u ''a = '' @ [0x394] @ u ''v/'' @ [0x394] @ u ''t''))
              (u ''Acceleration = change in velocity '' @ [0xF7] @ u '' time'')
              (u ''physics''))
           \<lparr>formula := Some (u ''a = (v_f - v_i)/t'')\<rparr>
         else if py_in ''force'' problem_lower then
           (dict (VStr (u ''F = m '' @ [0xD7] @ u '' a''))
              (u ''Force = mass '' @ [0xD7] @ u '' acceleration (Newton's Second Law)'')
              (u ''physics''))
           \<lparr>formula := Some (u ''F = ma'')\<rparr>
         else if py_in ''energy'' problem_lower then
           (dict (VStr (u ''E = m '' @ [0xD7] @ u '' c'' @ [0xB2]))
              (u ''Energy = mass '' @ [0xD7] @ u '' speed of light squared (Einstein's equation)'')
              (u ''physics''))
           \<lparr>formula := Some (u ''E = mc'' @ [0xB2])\<rparr>
         else
           dict (VStr (u ''Physics principle''))
             (u ''Applying fundamental physics laws and equations'')
             (u ''physics''))"

subsection \<open>\<^verbatim>\<open>solve_programming_problem\<close>\<close>

text \<open>The dictionary of snippets, in the order of its keys; \<open>[10]\<close> is the line feed.\<close>

definition solutions :: "(string \<times> ustr) list" where
  "solutions =
     [(''hello world'', u ''print(\"Hello, World!\")''),
      (''fibonacci'', join [10] (map u
         [''def fib(n):'',
          ''    if n <= 1:'',
          ''        return n'',
          ''    return fib(n-1) + fib(n-2)''])),
      (''factorial'', join [10] (map u
         [''def factorial(n):'',
          ''    if n == 0:'',
          ''        return 1'',
          ''    return n * factorial(n-1)''])),
      (''prime check'', join [10] (map u
         [''def is_prime(n):'',
          ''    if n < 2:'',
          ''        return False'',
          ''    for i in range(2, int(n**0.5)+1):'',
          ''        if n % i == 0:'',
          ''            return False'',
          ''    return True'']))]"

definition programming_solution :: solution where
  "programming_solution =
     dict (VStr (u ''Programming solution''))
       (u ''Here's a general approach to solve this programming problem...'')
       (u ''programming'')"

definition solve_programming_problem :: "string \<Rightarrow> solution" where
  "solve_programming_problem problem =
     (let problem_lower = lower problem
      in if py_in ''python'' problem_lower then
           (case find (\<lambda>(key, solution). py_in key problem_lower) solutions of
              Some (key, solution) \<Rightarrow>
                (dict (VStr (u ''Python solution for '' @ u key)) solution (u ''programming''))
                \<lparr>language := Some (u ''Python'')\<rparr>
            | None \<Rightarrow> programming_solution)
         else programming_solution)"

subsection \<open>\<^verbatim>\<open>solve_time_date_problem\<close>\<close>

definition solve_time_date_problem :: "datetime \<Rightarrow> string \<Rightarrow> solution" where
  "solve_time_date_problem now problem =
     (if py_in ''current time'' (lower problem) then
        dict (VStr (u (strftime now ''%H:%M:%S'')))
          (u ''Current time is '' @ u (strftime now ''%I:%M %p''))
          (u ''time'')
      else if py_in ''current date'' (lower problem) then
        dict (VStr (u (strftime now ''%Y-%m-%d'')))
          (u ''Today is '' @ u (strftime now ''%A, %B %d, %Y''))
          (u ''date'')
      else if py_in ''day of week'' (lower problem) then
        dict (VStr (u (strftime now ''%A'')))
          (u ''Today is '' @ u (strftime now ''%A''))
          (u ''date'')
      else
        dict (VStr (u ''Time/date information''))
          (u ''Based on current datetime calculations'')
          (u ''time_date''))"

subsection \<open>\<^verbatim>\<open>solve_conversion_problem\<close>\<close>

text \<open>This handler has no \<^verbatim>\<open>try\<close>: an exception of its arithmetic is its result.\<close>

definition conversion_result :: solution where
  "conversion_result =
     dict (VStr (u ''Conversion result''))
       (u ''Unit conversion using standard formulas'')
       (u ''conversion'')"

definition solve_conversion_problem :: "string \<Rightarrow> exn + solution" where
  "solve_conversion_problem problem =
     (let problem_lower = lower problem
      in if py_in ''celsius to fahrenheit'' problem_lower then
           (let numbers = extract_numbers problem
            in if numbers \<noteq> [] then
                 (let celsius = hd numbers
                  in bind (int_truediv (celsius * 9) 5) (\<lambda>q.
                     bind (float_add_int q 32) (\<lambda>fahrenheit.
                       Inr (dict (VStr (u (format_f 1 fahrenheit) @ [0xB0] @ u ''F''))
                         (u (show_int celsius) @ [0xB0] @ u ''C = ('' @ u (show_int celsius) @ u '' '' @
                          [0xD7] @ u '' 9/5) + 32 = '' @ u (format_f 1 fahrenheit) @ [0xB0] @ u ''F'')
                         (u ''conversion'')))))
               else Inr conversion_result)
         else if py_in ''fahrenheit to celsius'' problem_lower then
           (let numbers = extract_numbers problem
            in if numbers \<noteq> [] then
                 (let fahrenheit = hd numbers
                  in bind (int_truediv ((fahrenheit - 32) * 5) 9) (\<lambda>celsius.
                       Inr (dict (VStr (u (format_f 1 celsius) @ [0xB0] @ u ''C''))
                         (u (show_int fahrenheit) @ [0xB0] @ u ''F = ('' @ u (show_int fahrenheit) @
                          u '' - 32) '' @ [0xD7] @ u '' 5/9 = '' @ u (format_f 1 celsius) @ [0xB0] @ u ''C'')
                         (u ''conversion''))))
               else Inr conversion_result)
         else Inr conversion_result)"

subsection \<open>\<^verbatim>\<open>solve_logic_puzzle\<close>\<close>

definition puzzles :: "(string \<times> ustr) list" where
  "puzzles =
     [(''what comes next'', u ''Analyzing the pattern...''),
      (''logic puzzle'', u ''Applying logical reasoning...''),
      (''riddle'', u ''Thinking creatively to solve...'')]"

definition solve_logic_puzzle :: "string \<Rightarrow> solution" where
  "solve_logic_puzzle problem =
     (case find (\<lambda>(key, response). py_in key (lower problem)) puzzles of
        Some (key, response) \<Rightarrow> dict (VStr (u ''Logical solution'')) response (u ''logic'')
      | None \<Rightarrow>
          dict (VStr (u ''Analytical solution''))
            (u ''Using logical reasoning and pattern recognition'')
            (u ''logic''))"

subsection \<open>\<^verbatim>\<open>solve_general_problem\<close>\<close>

definition math_keywords :: "string list" where
  "math_keywords = [''calculate'', ''solve'', ''what is'', ''how much'', ''math'', ''equation'']"

definition physics_keywords :: "string list" where
  "physics_keywords = [''velocity'', ''acceleration'', ''force'', ''energy'', ''physics'']"

definition programming_keywords :: "string list" where
  "programming_keywords = [''code'', ''program'', ''function'', ''algorithm'', ''python'', ''javascript'']"

definition time_date_keywords :: "string list" where
  "time_date_keywords = [''time'', ''date'', ''day'', ''week'', ''month'', ''year'']"

definition conversion_keywords :: "string list" where
  "conversion_keywords = [''convert'', ''feet to meters'', ''celsius to fahrenheit'']"

definition solve_general_problem :: "datetime \<Rightarrow> string \<Rightarrow> exn + solution" where
  "solve_general_problem now problem =
     (let problem_lower = lower problem
      in if any_in math_keywords problem_lower then Inr (solve_math_problem problem)
         else if any_in physics_keywords problem_lower then Inr (solve_physics_problem problem)
         else if any_in programming_keywords problem_lower then Inr (solve_programming_problem problem)
         else if any_in time_date_keywords problem_lower then Inr (solve_time_date_problem now problem)
         else if any_in conversion_keywords problem_lower then solve_conversion_problem problem
         else Inr (solve_logic_puzzle problem))"

subsection \<open>The table of handlers\<close>

text \<open>
  \<^verbatim>\<open>setup_problem_solvers\<close> maps the six category names to the handlers. A call of a
  handler gets the reading of the clock and the problem, and returns or raises.
\<close>

datatype category = Math | Physics | Programming | Logic | Time_date | Conversion




section \<open>Facts about the string operations\<close>

lemma startswith_iff: "startswith s p \<longleftrightarrow> (\<exists>ss. s = p @ ss)"
  by (induction s p rule: startswith.induct) auto

lemma py_in_iff: "py_in sub s \<longleftrightarrow> (\<exists>ps ss. s = ps @ sub @ ss)"
proof (induction s)
  case Nil
  then show ?case by auto
next
  case (Cons c cs)
  show ?case
  proof
    assume "py_in sub (c # cs)"
    then consider "startswith (c # cs) sub" | "py_in sub cs" by auto
    then show "\<exists>ps ss. c # cs = ps @ sub @ ss"
    proof cases
      case 1
      then obtain ss where "c # cs = sub @ ss" by (auto simp: startswith_iff)
      then have "c # cs = [] @ sub @ ss" by simp
      then show ?thesis by blast
    next
      case 2
      with Cons obtain ps ss where "cs = ps @ sub @ ss" by blast
      then have "c # cs = (c # ps) @ sub @ ss" by simp
      then show ?thesis by blast
    qed
  next
    assume "\<exists>ps ss. c # cs = ps @ sub @ ss"
    then obtain ps ss where e: "c # cs = ps @ sub @ ss" by blast
    show "py_in sub (c # cs)"
    proof (cases ps)
      case Nil
      with e have "startswith (c # cs) sub" by (auto simp: startswith_iff)
      then show ?thesis by simp
    next
      case (Cons a as)
      with e have "cs = as @ sub @ ss" by simp
      with Cons.IH have "py_in sub cs" by blast
      then show ?thesis by simp
    qed
  qed
qed

lemma findall_digits_nonempty: "\<exists>d \<in> set s. isdigit d \<Longrightarrow> findall_digits s \<noteq> []"
  by (induction s rule: findall_digits.induct) auto

lemma findall_digits_dropWhile:
  "length (findall_digits cs) \<le> Suc (length (findall_digits (dropWhile isdigit cs)))"
  by (cases cs) auto

lemma findall_digits_Cons: "length (findall_digits cs) \<le> length (findall_digits (c # cs))"
  using findall_digits_dropWhile [of cs] by simp

lemma match_here_two: "match_here ops s \<Longrightarrow> 2 \<le> length (findall_digits s)"
proof -
  assume m: "match_here ops s"
  then obtain c cs where s: "s = c # cs" and c: "isdigit c"
    by (cases s) (auto simp: match_here_def)
  from m s obtain x r where x: "dropWhile isspace (dropWhile isdigit cs) = x # r"
    by (cases "dropWhile isspace (dropWhile isdigit cs)") (auto simp: match_here_def)
  from m s x obtain d r' where d: "dropWhile isspace r = d # r'" and dd: "isdigit d"
    by (cases "dropWhile isspace r") (auto simp: match_here_def)
  have "d \<in> set (dropWhile isspace r)" using d by simp
  then have "d \<in> set r" by (rule set_dropWhileD)
  then have "d \<in> set (dropWhile isspace (dropWhile isdigit cs))" using x by simp
  then have "d \<in> set (dropWhile isdigit cs)" by (rule set_dropWhileD)
  with dd have "findall_digits (dropWhile isdigit cs) \<noteq> []"
    by (intro findall_digits_nonempty) blast
  then have "1 \<le> length (findall_digits (dropWhile isdigit cs))"
    by (cases "findall_digits (dropWhile isdigit cs)") auto
  then show ?thesis using s c by simp
qed

lemma re_search_two: "re_search ops s \<Longrightarrow> 2 \<le> length (findall_digits s)"
proof (induction s)
  case Nil
  then show ?case by simp
next
  case (Cons c cs)
  from Cons.prems consider "match_here ops (c # cs)" | "re_search ops cs" by auto
  then show ?case
  proof cases
    case 1
    then show ?thesis by (rule match_here_two)
  next
    case 2
    then have "2 \<le> length (findall_digits cs)" by (rule Cons.IH)
    then show ?thesis using findall_digits_Cons [of cs c] by linarith
  qed
qed

section \<open>Facts about the float operations\<close>

lemma pow2_powi: "pow2 e = 2 powi e"
  unfolding pow2_def power_int_def by (simp add: field_simps)

lemma pow2_pos [simp]: "0 < pow2 e"
  unfolding pow2_def by simp

lemma pow2_add: "pow2 (a + b) = pow2 a * pow2 b"
  unfolding pow2_powi by (rule power_int_add) simp

lemma pow2_diff: "pow2 (a - b) = pow2 a / pow2 b"
  unfolding pow2_powi by (rule power_int_diff) simp

lemma pow2_mono: "a \<le> b \<Longrightarrow> pow2 a \<le> pow2 b"
  unfolding pow2_powi by (rule power_int_increasing) simp_all

lemma pow2_strict_mono: "a < b \<Longrightarrow> pow2 a < pow2 b"
  unfolding pow2_powi by (rule power_int_strict_increasing) simp_all

lemma pow2_nat: "pow2 (int n) = 2 ^ n"
  unfolding pow2_def by simp

lemma pow2_0 [simp]: "pow2 0 = 1"
  unfolding pow2_def by simp

lemma bitlen_unfold: "0 < n \<Longrightarrow> bitlen n = 1 + bitlen (n div 2)"
  by (subst bitlen.simps) simp

lemma bitlen_0: "n \<le> 0 \<Longrightarrow> bitlen n = 0"
  by (subst bitlen.simps) simp

lemma bitlen_bounds:
  "0 < n \<Longrightarrow> 0 < bitlen n \<and> 2 ^ nat (bitlen n - 1) \<le> n \<and> n < 2 ^ nat (bitlen n)"
proof (induction n rule: bitlen.induct)
  case (1 n)
  show ?case
  proof (cases "n = 1")
    case True
    have "bitlen 1 = 1" by (simp add: bitlen_unfold bitlen_0)
    with True show ?thesis by simp
  next
    case False
    with 1 have m: "0 < n div 2" by simp
    from 1 have n: "\<not> n \<le> 0" by simp
    from "1.IH" [OF n m] have ih: "0 < bitlen (n div 2)"
      "2 ^ nat (bitlen (n div 2) - 1) \<le> n div 2" "n div 2 < 2 ^ nat (bitlen (n div 2))" by auto
    have b: "bitlen n = 1 + bitlen (n div 2)" using 1 by (simp add: bitlen_unfold)
    define k where "k = nat (bitlen (n div 2) - 1)"
    have e: "nat (bitlen (n div 2)) = Suc k" using ih(1) by (simp add: k_def)
    have e': "nat (1 + bitlen (n div 2)) = Suc (Suc k)" using ih(1) by (simp add: k_def)
    have e'': "nat (1 + bitlen (n div 2) - 1) = Suc k" using ih(1) by (simp add: k_def)
    have lo: "(2::int) ^ k \<le> n div 2" using ih(2) by (simp add: k_def)
    have hi: "n div 2 < (2::int) ^ Suc k" using ih(3) by (simp add: e)
    have "(2::int) ^ Suc k \<le> n" using lo by (simp; linarith?)
    moreover have "n < (2::int) ^ Suc (Suc k)" using hi by (simp; linarith?)
    ultimately show ?thesis using ih(1) unfolding b e' e'' by simp
  qed
qed

lemma pow2_nonneg_exp: "0 \<le> e \<Longrightarrow> pow2 e = 2 ^ nat e"
  by (simp add: pow2_def)

lemma floor_log2_bounds:
  assumes "0 < x"
  shows "pow2 (floor_log2 x) \<le> x \<and> x < pow2 (floor_log2 x + 1)"
proof -
  obtain p q where pq: "quotient_of x = (p, q)" by (cases "quotient_of x")
  have q: "0 < q" using pq by (rule quotient_of_denom_pos)
  have x: "x = of_int p / of_int q" using pq by (rule quotient_of_div)
  have p: "0 < p" using assms q unfolding x by (simp add: zero_less_divide_iff)
  define bp where "bp = bitlen p"
  define bq where "bq = bitlen q"
  from bitlen_bounds [OF p] have bp: "0 < bp" "2 ^ nat (bp - 1) \<le> p" "p < 2 ^ nat bp"
    by (simp_all add: bp_def)
  from bitlen_bounds [OF q] have bq: "0 < bq" "2 ^ nat (bq - 1) \<le> q" "q < 2 ^ nat bq"
    by (simp_all add: bq_def)
  have P1: "pow2 (bp - 1) \<le> of_int p"
  proof -
    have "(of_int (2 ^ nat (bp - 1)) :: rat) \<le> of_int p" using bp(2) by (simp only: of_int_le_iff)
    then show ?thesis using bp(1) by (simp add: pow2_nonneg_exp)
  qed
  have P2: "of_int p < pow2 bp"
  proof -
    have "(of_int p :: rat) < of_int (2 ^ nat bp)" using bp(3) by (simp only: of_int_less_iff)
    then show ?thesis using bp(1) by (simp add: pow2_nonneg_exp)
  qed
  have Q1: "pow2 (bq - 1) \<le> of_int q"
  proof -
    have "(of_int (2 ^ nat (bq - 1)) :: rat) \<le> of_int q" using bq(2) by (simp only: of_int_le_iff)
    then show ?thesis using bq(1) by (simp add: pow2_nonneg_exp)
  qed
  have Q2: "of_int q < pow2 bq"
  proof -
    have "(of_int q :: rat) < of_int (2 ^ nat bq)" using bq(3) by (simp only: of_int_less_iff)
    then show ?thesis using bq(1) by (simp add: pow2_nonneg_exp)
  qed
  have qr: "(0::rat) < of_int q" using q by simp
  have pr: "(0::rat) < of_int p" using p by simp
  have lo: "pow2 (bp - bq - 1) \<le> x"
  proof -
    have "pow2 (bp - bq - 1) = pow2 (bp - 1) / pow2 bq"
      using pow2_diff [of "bp - 1" bq] by (simp add: algebra_simps)
    also have "\<dots> \<le> of_int p / pow2 bq"
      by (rule divide_right_mono [OF P1]) (simp add: less_imp_le)
    also have "\<dots> \<le> of_int p / of_int q"
      by (rule divide_left_mono) (use Q2 qr pr in \<open>simp_all add: less_imp_le\<close>)
    finally show ?thesis by (simp add: x)
  qed
  have hi: "x < pow2 (bp - bq + 1)"
  proof -
    have "x = of_int p / of_int q" by (rule x)
    also have "\<dots> < pow2 bp / of_int q"
      by (rule divide_strict_right_mono [OF P2 qr])
    also have "\<dots> \<le> pow2 bp / pow2 (bq - 1)"
      by (rule divide_left_mono) (use Q1 qr in \<open>simp_all add: less_imp_le\<close>)
    also have "\<dots> = pow2 (bp - bq + 1)"
      using pow2_diff [of bp "bq - 1"] by (simp add: algebra_simps)
    finally show ?thesis .
  qed
  have f: "floor_log2 x = (if pow2 (bp - bq) \<le> x then bp - bq else bp - bq - 1)"
    by (simp add: floor_log2_def pq bp_def bq_def Let_def)
  show ?thesis
  proof (cases "pow2 (bp - bq) \<le> x")
    case True
    then show ?thesis using hi by (simp add: f)
  next
    case False
    then show ?thesis using lo by (simp add: f)
  qed
qed

lemma floor_log2_eqI:
  assumes "pow2 e \<le> x" and "x < pow2 (e + 1)"
  shows "floor_log2 x = e"
proof -
  have x: "0 < x" using assms(1) pow2_pos [of e] by linarith
  define f where "f = floor_log2 x"
  from floor_log2_bounds [OF x] have f: "pow2 f \<le> x" "x < pow2 (f + 1)" by (simp_all add: f_def)
  have "\<not> f < e"
  proof
    assume "f < e"
    then have "pow2 (f + 1) \<le> pow2 e" by (intro pow2_mono) simp
    with f(2) assms(1) show False by linarith
  qed
  moreover have "\<not> e < f"
  proof
    assume "e < f"
    then have "pow2 (e + 1) \<le> pow2 f" by (intro pow2_mono) simp
    with f(1) assms(2) show False by linarith
  qed
  ultimately show ?thesis by (simp add: f_def)
qed

lemma round_half_even_of_int [simp]: "round_half_even (of_int n) = n"
  by (simp add: round_half_even_def)


lemma round_half_even_ge: "of_int n - 1 / 2 < r \<Longrightarrow> n \<le> round_half_even r"
proof -
  assume a: "of_int n - 1 / 2 < r"
  have fl: "n - 1 \<le> \<lfloor>r\<rfloor>" using a by (simp add: le_floor_iff)
  show ?thesis
  proof (cases "\<lfloor>r\<rfloor> = n - 1")
    case True
    then have "1 / 2 < r - of_int \<lfloor>r\<rfloor>" using a by simp
    then show ?thesis using True by (simp add: round_half_even_def Let_def)
  next
    case False
    with fl have "n \<le> \<lfloor>r\<rfloor>" by simp
    then show ?thesis by (auto simp: round_half_even_def Let_def)
  qed
qed


lemma pow2_less_cancel: "pow2 a < pow2 b \<Longrightarrow> a < b"
  using pow2_mono [of b a] by (cases "a < b") auto

lemma abs_pow2 [simp]: "\<bar>pow2 k\<bar> = pow2 k"
  by (rule abs_of_pos) (rule pow2_pos)

lemma pow2_neq0 [simp]: "pow2 k \<noteq> 0"
  using pow2_pos [of k] by linarith

lemma round_to_double_exact:
  assumes x: "x = of_int m * pow2 k"
    and m: "\<bar>m\<bar> < 2 ^ 53"
    and k: "- 1074 \<le> k"
    and r: "\<bar>x\<bar> < 2 ^ 1024"
  shows "round_to_double x = Finite x"
proof (cases "x = 0")
  case True
  then show ?thesis by (simp add: round_to_double_def)
next
  case False
  define e where "e = floor_log2 \<bar>x\<bar>"
  define j where "j = max (e - 52) (- 1074)"
  have ax: "0 < \<bar>x\<bar>" using False by simp
  from floor_log2_bounds [OF ax] have e: "pow2 e \<le> \<bar>x\<bar>" by (simp add: e_def)
  have "\<bar>x\<bar> = of_int \<bar>m\<bar> * pow2 k"
    using pow2_pos [of k] by (simp add: x abs_mult)
  also have "\<dots> < of_int (2 ^ 53) * pow2 k"
    by (rule mult_strict_right_mono) (use m in \<open>simp_all only: of_int_less_iff pow2_pos\<close>)
  also have "\<dots> = pow2 53 * pow2 k" by (simp add: pow2_def)
  also have "\<dots> = pow2 (53 + k)" by (simp add: pow2_add)
  finally have "pow2 e < pow2 (53 + k)" using e by linarith
  then have "e < 53 + k" by (rule pow2_less_cancel)
  then have jk: "j \<le> k" using k by (simp add: j_def)
  have d: "pow2 k / pow2 j = of_int (2 ^ nat (k - j))"
    using jk pow2_diff [of k j] by (simp add: pow2_nonneg_exp)
  have "x / pow2 j = of_int m * (pow2 k / pow2 j)" by (simp add: x)
  also have "\<dots> = of_int (m * 2 ^ nat (k - j))" unfolding d by simp
  finally have q: "x / pow2 j = of_int (m * 2 ^ nat (k - j))" .
  have y: "of_int (round_half_even (x / pow2 j)) * pow2 j = x"
  proof -
    have "of_int (round_half_even (x / pow2 j)) * pow2 j = x / pow2 j * pow2 j"
      unfolding q round_half_even_of_int ..
    also have "\<dots> = x" using pow2_pos [of j] by simp
    finally show ?thesis .
  qed
  show ?thesis
    using False r y
    by (simp add: round_to_double_def Let_def e_def [symmetric] j_def [symmetric] del: of_int_mult)
qed

lemma round_to_double_overflow:
  assumes "2 ^ 1024 \<le> x"
  shows "round_to_double x = PosInf"
proof -
  have x: "0 < x" using assms by (rule less_le_trans [rotated]) simp
  define e where "e = floor_log2 x"
  have ax: "\<bar>x\<bar> = x" using x by simp
  from floor_log2_bounds [OF x] have e: "pow2 e \<le> x" "x < pow2 (e + 1)"
    by (simp_all add: e_def)
  have p: "pow2 1024 = 2 ^ 1024" by (simp add: pow2_def)
  have "pow2 1024 < pow2 (e + 1)" using assms e(2) unfolding p by linarith
  then have e1024: "1024 \<le> e" using pow2_less_cancel [of 1024 "e + 1"] by simp
  then have j: "max (e - 52) (- 1074) = e - 52" by simp
  define q where "q = pow2 (e - 52)"
  have q: "0 < q" by (simp add: q_def)
  have "pow2 52 = pow2 e / q" using pow2_diff [of e "e - 52"] by (simp add: q_def)
  also have "\<dots> \<le> x / q" by (rule divide_right_mono [OF e(1)]) (use q in simp)
  finally have "of_int (2 ^ 52) \<le> x / q" by (simp add: pow2_def)
  then have "of_int (2 ^ 52) - 1 / 2 < x / q" by linarith
  then have n: "2 ^ 52 \<le> round_half_even (x / q)" by (rule round_half_even_ge)
  have "pow2 e = of_int (2 ^ 52) * q"
    using pow2_add [of 52 "e - 52"] by (simp add: q_def pow2_def)
  also have "\<dots> \<le> of_int (round_half_even (x / q)) * q"
    by (rule mult_right_mono) (use n q in \<open>simp_all only: of_int_le_iff less_imp_le\<close>)
  finally have "pow2 e \<le> of_int (round_half_even (x / q)) * q" .
  moreover have "pow2 1024 \<le> pow2 e" using e1024 by (rule pow2_mono)
  ultimately have big: "2 ^ 1024 \<le> of_int (round_half_even (x / q)) * q" unfolding p by linarith
  then have "2 ^ 1024 \<le> \<bar>of_int (round_half_even (x / q)) * q\<bar>" by linarith
  then show ?thesis
    using x by (simp add: round_to_double_def Let_def ax e_def [symmetric] j q_def [symmetric])
qed


lemma round_half_even_ge_tie:
  assumes "even n" and "of_int n - 1 / 2 \<le> r"
  shows "n \<le> round_half_even r"
proof (cases "of_int n - 1 / 2 = r")
  case False
  with assms(2) have "of_int n - 1 / 2 < r" by simp
  then show ?thesis by (rule round_half_even_ge)
next
  case True
  then have r: "r = of_int (n - 1) + 1 / 2" by simp
  have f: "\<lfloor>r\<rfloor> = n - 1" unfolding r by (simp add: floor_unique)
  have "r - of_int \<lfloor>r\<rfloor> = r - of_int (n - 1)" by (simp only: f)
  also have "\<dots> = 1 / 2" by (simp add: r)
  finally have d: "r - of_int \<lfloor>r\<rfloor> = 1 / 2" .
  have o: "odd (n - 1)" using assms(1) by simp
  have d': "r - of_int (n - 1) = 1 / 2" using d by (simp only: f)
  have "round_half_even r = n"
    unfolding round_half_even_def Let_def f d' using o by simp
  then show ?thesis by simp
qed

lemma round_to_double_overflow_tight:
  assumes "2 ^ 1024 - 2 ^ 970 \<le> x"
  shows "round_to_double x = PosInf"
proof (cases "2 ^ 1024 \<le> x")
  case True
  then show ?thesis by (rule round_to_double_overflow)
next
  case False
  then have hi: "x < pow2 (1023 + 1)" by (simp add: pow2_def)
  have lo: "pow2 1023 \<le> x" using assms by (simp add: pow2_def)
  have x: "0 < x" using lo pow2_pos [of 1023] by linarith
  have e: "floor_log2 x = 1023" using lo hi by (rule floor_log2_eqI)
  define q :: rat where "q = 2 ^ 971"
  have q: "0 < q" by (simp add: q_def)
  have pq: "pow2 971 = q" by (simp add: pow2_def q_def)
  have "of_int (2 ^ 53) - 1 / 2 = (2 ^ 1024 - 2 ^ 970) / q" by (simp add: q_def)
  also have "\<dots> \<le> x / q"
    by (rule divide_right_mono [OF assms]) (use q in simp)
  finally have "of_int (2 ^ 53) - 1 / 2 \<le> x / q" .
  then have n: "2 ^ 53 \<le> round_half_even (x / q)"
    by (intro round_half_even_ge_tie) simp_all
  have "2 ^ 1024 = of_int (2 ^ 53) * q" by (simp add: q_def)
  also have "\<dots> \<le> of_int (round_half_even (x / q)) * q"
    by (rule mult_right_mono) (use n q in \<open>simp_all only: of_int_le_iff less_imp_le\<close>)
  finally have "2 ^ 1024 \<le> of_int (round_half_even (x / q)) * q" .
  then have "2 ^ 1024 \<le> \<bar>of_int (round_half_even (x / q)) * q\<bar>" by linarith
  then show ?thesis
    using x by (simp add: round_to_double_def Let_def e pq)
qed



lemma int_truediv_overflow:
  assumes "2 ^ 1024 - 2 ^ 970 \<le> (of_int a / of_int b :: rat)"
  shows "int_truediv a b = Inl (OverflowError ''integer division result too large for a float'')"
proof -
  have "b \<noteq> 0" using assms by (cases "b = 0") simp_all
  then show ?thesis
    using round_to_double_overflow_tight [OF assms] by (simp add: int_truediv_def)
qed



lemma round_to_double_int:
  assumes "\<bar>n\<bar> < 2 ^ 53"
  shows "round_to_double (of_int n) = Finite (of_int n)"
proof (rule round_to_double_exact [where m = n and k = 0])
  show "(of_int n :: rat) = of_int n * pow2 0" by simp
  show "\<bar>n\<bar> < 2 ^ 53" by (rule assms)
  show "- 1074 \<le> (0::int)" by simp
  have "(of_int \<bar>n\<bar> :: rat) < of_int (2 ^ 53)" using assms by (simp only: of_int_less_iff)
  then show "\<bar>of_int n :: rat\<bar> < 2 ^ 1024" by simp
qed



lemma ev3: "round_to_double 32 = Finite 32"
  using round_to_double_int [of 32] by simp






section \<open>Facts about extracted numbers and long inputs\<close>

lemma digit_val_nonneg: "isdigit c \<Longrightarrow> 0 \<le> digit_val c"
  by (auto simp: isdigit_def digit_val_def)

lemma foldl_digits_nonneg:
  "0 \<le> a \<Longrightarrow> \<forall>c \<in> set s. isdigit c \<Longrightarrow> 0 \<le> foldl (\<lambda>a c. 10 * a + digit_val c) a s"
proof (induction s arbitrary: a)
  case Nil
  then show ?case by simp
next
  case (Cons c s)
  have "0 \<le> 10 * a + digit_val c" using Cons.prems digit_val_nonneg [of c] by simp
  then show ?case using Cons.prems by (simp add: Cons.IH)
qed

lemma int_of_digits_nonneg: "\<forall>c \<in> set s. isdigit c \<Longrightarrow> 0 \<le> int_of_digits s"
  unfolding int_of_digits_def by (rule foldl_digits_nonneg) simp_all

lemma findall_digits_all_digits: "xs \<in> set (findall_digits s) \<Longrightarrow> \<forall>c \<in> set xs. isdigit c"
proof (induction s rule: findall_digits.induct)
  case 1
  then show ?case by simp
next
  case (2 c cs)
  show ?case
  proof (cases "isdigit c")
    case True
    with "2.prems" consider "xs = c # takeWhile isdigit cs"
      | "xs \<in> set (findall_digits (dropWhile isdigit cs))" by auto
    then show ?thesis
    proof cases
      case 1
      then show ?thesis using True by (auto dest: set_takeWhileD)
    next
      case 2
      then show ?thesis using "2.IH"(1) [OF True] by blast
    qed
  next
    case False
    then show ?thesis using "2.prems" "2.IH"(2) by simp
  qed
qed



lemma extract_number_nonneg: "0 \<le> extract_number s"
proof (cases "findall_digits s")
  case Nil
  then show ?thesis by (simp add: extract_number_def)
next
  case (Cons x xs)
  then have "x \<in> set (findall_digits s)" by simp
  then have "0 \<le> int_of_digits x"
    by (intro int_of_digits_nonneg) (rule findall_digits_all_digits)
  then show ?thesis using Cons by (simp add: extract_number_def)
qed

lemma findall_digits_skip:
  "\<forall>c \<in> set a. \<not> isdigit c \<Longrightarrow> findall_digits (a @ s) = findall_digits s"
  by (induction a) simp_all

lemma findall_digits_run:
  assumes "ds \<noteq> []" and "\<forall>c \<in> set ds. isdigit c"
  shows "findall_digits ds = [ds]"
proof -
  obtain c cs where ds: "ds = c # cs" using assms(1) by (cases ds) auto
  have t: "takeWhile isdigit cs = cs" using assms(2) ds by (simp add: takeWhile_eq_all_conv)
  have d: "dropWhile isdigit cs = []" using assms(2) ds by (simp add: dropWhile_eq_Nil_conv)
  show ?thesis using assms(2) by (simp add: ds t d)
qed

lemma foldl_zeros:
  "foldl (\<lambda>a c. 10 * a + digit_val c) a (replicate n CHR ''0'') = a * 10 ^ n"
  by (induction n arbitrary: a) (simp_all add: digit_val_def)

lemma int_of_digits_one_zeros: "int_of_digits (CHR ''1'' # replicate n CHR ''0'') = 10 ^ n"
proof -
  have "digit_val CHR ''1'' = 1" by (simp add: digit_val_def)
  then show ?thesis by (simp add: int_of_digits_def foldl_zeros)
qed


lemma py_in_prefix: "py_in kw a \<Longrightarrow> py_in kw (a @ b)"
proof -
  assume "py_in kw a"
  then obtain ps ss where "a = ps @ kw @ ss" by (auto simp: py_in_iff)
  then have "a @ b = ps @ kw @ (ss @ b)" by simp
  then show ?thesis unfolding py_in_iff by blast
qed

lemma py_in_snoc_other:
  assumes "c \<notin> set kw" and "kw \<noteq> []"
  shows "py_in kw (a @ [c]) = py_in kw a"
proof
  assume "py_in kw (a @ [c])"
  then obtain ps ss where e: "a @ [c] = ps @ kw @ ss" by (auto simp: py_in_iff)
  show "py_in kw a"
  proof (cases ss rule: rev_cases)
    case Nil
    obtain k l where kw: "kw = k @ [l]" using assms(2) by (cases kw rule: rev_cases) auto
    from e Nil kw have "a @ [c] = (ps @ k) @ [l]" by simp
    then have "c = l" by (simp only: append1_eq_conv)
    with assms(1) kw show ?thesis by simp
  next
    case (snoc ss' x)
    with e have "a @ [c] = (ps @ kw @ ss') @ [x]" by simp
    then have "a = ps @ kw @ ss'" by (simp only: append1_eq_conv)
    then show ?thesis unfolding py_in_iff by blast
  qed
next
  assume "py_in kw a"
  then show "py_in kw (a @ [c])" by (rule py_in_prefix)
qed

lemma py_in_replicate_other:
  assumes "c \<notin> set kw" and "kw \<noteq> []"
  shows "py_in kw (a @ replicate n c) = py_in kw a"
proof (induction n arbitrary: a)
  case 0
  then show ?case by simp
next
  case (Suc n)
  have "py_in kw (a @ replicate (Suc n) c) = py_in kw ((a @ [c]) @ replicate n c)" by simp
  also have "\<dots> = py_in kw (a @ [c])" by (rule Suc.IH)
  also have "\<dots> = py_in kw a" by (rule py_in_snoc_other [OF assms])
  finally show ?case .
qed

lemma lower_zeros: "lower (a @ replicate n CHR ''0'') = lower a @ replicate n CHR ''0''"
  by (simp add: lower_def lower_char_def)





lemma conversion_overflow_input:
  "py_in ''celsius to fahrenheit'' (lower (''celsius to fahrenheit 1'' @ replicate 309 CHR ''0'')) \<and>
   extract_numbers (''celsius to fahrenheit 1'' @ replicate 309 CHR ''0'') = [10 ^ 309] \<and>
   solve_conversion_problem (''celsius to fahrenheit 1'' @ replicate 309 CHR ''0'') =
     Inl (OverflowError ''integer division result too large for a float'')"
proof -
  define ds where "ds = CHR ''1'' # replicate 309 CHR ''0''"
  define inp where "inp = ''celsius to fahrenheit 1'' @ replicate 309 CHR ''0''"
  have i: "inp = ''celsius to fahrenheit '' @ ds" by (simp add: inp_def ds_def)
  have l: "lower inp = inp" unfolding inp_def lower_zeros by (simp add: lower_def lower_char_def)
  have "py_in ''celsius to fahrenheit'' inp"
    unfolding inp_def by (rule py_in_prefix) simp
  then have p: "py_in ''celsius to fahrenheit'' (lower inp)" by (simp only: l)
  have "findall_digits inp = findall_digits ds"
    unfolding i by (rule findall_digits_skip) (simp add: isdigit_def)
  also have "\<dots> = [ds]"
    by (rule findall_digits_run) (simp_all add: ds_def isdigit_def)
  finally have f: "findall_digits inp = [ds]" .
  define c :: int where "c = 10 ^ 309"
  have n: "extract_numbers inp = [c]"
    by (simp add: extract_numbers_def f) (simp add: ds_def c_def int_of_digits_one_zeros)
  have o: "int_truediv (c * 9) 5 =
      Inl (OverflowError ''integer division result too large for a float'')"
    by (rule int_truediv_overflow) (simp add: c_def)
  have "solve_conversion_problem inp =
      Inl (OverflowError ''integer division result too large for a float'')"
    using p by (simp add: solve_conversion_problem_def Let_def n o bind_def)
  with p n show ?thesis unfolding inp_def c_def by blast
qed



section \<open>The claims\<close>

lemmas string_defs = isdigit_def isspace_def lower_def lower_char_def any_in_def match_here_def

lemmas math_defs = special_cases_def basic_arithmetic_def multiplication_and_division_def
  area_calculations_def percentage_calculations_def solve_math_try_def solve_math_problem_def
  index_def bind_def

lemmas number_defs = int_of_digits_def digit_val_def extract_numbers_def extract_number_def

text \<open>
  C1. An input that contains the literal substring \<open>0/0\<close> gets the fixed indeterminate-form
  solution from the math handler, whatever else it contains: the answer is
  \<open>Indeterminate form (0/0)\<close> and the type is \<open>mathematics\<close>.
\<close>

theorem indeterminate_form_returned:
  assumes "py_in ''0/0'' problem"
  shows "solve_math_problem problem = indeterminate_form \<and>
         answer (solve_math_problem problem) = VStr (u ''Indeterminate form (0/0)'') \<and>
         type (solve_math_problem problem) = u ''mathematics''"
  using assms
  by (simp add: solve_math_problem_def solve_math_try_def special_cases_def
      indeterminate_form_def dict_def)

theorem indeterminate_form_returned_witness:
  "py_in ''0/0'' ''what is 0/0 + 7 percent'' \<and>
   solve_math_problem ''what is 0/0 + 7 percent'' = indeterminate_form"
  using indeterminate_form_returned [of "''what is 0/0 + 7 percent''"] by simp









text \<open>
  C6. When a computation of the math handler raises, the handler returns the solution
  with the answer \<open>Unable to solve\<close>, the type \<open>error\<close> and the message of the exception
  in its explanation.
\<close>

theorem numeric_failure_caught:
  assumes "solve_math_try problem = Inl e"
  shows "solve_math_problem problem = unable_to_solve e \<and>
         answer (solve_math_problem problem) = VStr (u ''Unable to solve'') \<and>
         type (solve_math_problem problem) = u ''error'' \<and>
         explanation (solve_math_problem problem) = u ''Error in calculation: '' @ u (exn_str e)"
  using assms by (simp add: solve_math_problem_def unable_to_solve_def dict_def)

theorem numeric_failure_caught_witness:
  "solve_math_try ''5 percent of 0'' = Inl (ZeroDivisionError ''division by zero'') \<and>
   explanation (solve_math_problem ''5 percent of 0'') =
     u ''Error in calculation: '' @ u ''division by zero''"
proof -
  have t: "solve_math_try ''5 percent of 0'' = Inl (ZeroDivisionError ''division by zero'')"
    by (simp add: math_defs string_defs number_defs int_truediv_def)
  from numeric_failure_caught [OF t]
  have "explanation (solve_math_problem ''5 percent of 0'') =
      u ''Error in calculation: '' @ u (exn_str (ZeroDivisionError ''division by zero''))"
    by blast
  with t show ?thesis by simp
qed

text \<open>
  C7 does not hold of the code. The conversion handler has no \<^verbatim>\<open>try\<close>: for the input
  below, whose integer has 310 digits, its division raises \<^verbatim>\<open>OverflowError\<close>, and
  the general solver passes the exception on to its caller instead of returning a solution.
\<close>

theorem general_solver_raises:
  "solve_general_problem now (''celsius to fahrenheit 1'' @ replicate 309 CHR ''0'') =
     Inl (OverflowError ''integer division result too large for a float'')"
proof -
  define inp where "inp = ''celsius to fahrenheit 1'' @ replicate 309 CHR ''0''"
  have l: "lower inp = ''celsius to fahrenheit 1'' @ replicate 309 CHR ''0''"
    unfolding inp_def lower_zeros by (simp add: lower_def lower_char_def)
  have k: "py_in kw (lower inp) = py_in kw ''celsius to fahrenheit 1''"
    if "CHR ''0'' \<notin> set kw" and "kw \<noteq> []" for kw
    unfolding l using that by (rule py_in_replicate_other)
  have m: "\<not> any_in math_keywords (lower inp)"
    by (simp add: any_in_def math_keywords_def k)
  have p: "\<not> any_in physics_keywords (lower inp)"
    by (simp add: any_in_def physics_keywords_def k)
  have g: "\<not> any_in programming_keywords (lower inp)"
    by (simp add: any_in_def programming_keywords_def k)
  have t: "\<not> any_in time_date_keywords (lower inp)"
    by (simp add: any_in_def time_date_keywords_def k)
  have c: "any_in conversion_keywords (lower inp)"
    by (simp add: any_in_def conversion_keywords_def k)
  have "solve_general_problem now inp = solve_conversion_problem inp"
    using m p g t c by (simp add: solve_general_problem_def Let_def)
  then show ?thesis using conversion_overflow_input unfolding inp_def by simp
qed





text \<open>
  C10. When the rectangle branch or the percentage branch is entered (no \<open>0/0\<close>, no
  \<open>infinity\<close>, and not the circle branch before them) and fewer than two integers can be
  extracted, the math handler returns the placeholder \<open>Complex mathematical problem\<close>
  of type \<open>mathematics\<close>, not an error.
\<close>

theorem too_few_numbers_placeholder:
  assumes "\<not> py_in ''0/0'' problem"
    and "\<not> py_in ''infinity'' (lower problem)"
    and "\<not> (py_in ''area'' (lower problem) \<and> py_in ''circle'' (lower problem))"
    and "(py_in ''area'' (lower problem) \<and> py_in ''rectangle'' (lower problem)) \<or>
         (py_in ''%'' problem \<or> py_in ''percent'' (lower problem))"
    and "length (findall_digits problem) < 2"
  shows "solve_math_problem problem = complex_problem \<and>
         answer (solve_math_problem problem) = VStr (u ''Complex mathematical problem'') \<and>
         type (solve_math_problem problem) = u ''mathematics''"
proof -
  have a: "\<not> re_search ''+-'' problem" and m: "\<not> re_search ''*/'' problem"
    using assms(5) re_search_two [of _ problem] by fastforce+
  have "solve_math_try problem = Inr None"
    using assms a m
    by (auto simp: solve_math_try_def special_cases_def basic_arithmetic_def
        multiplication_and_division_def area_calculations_def percentage_calculations_def)
  then show ?thesis by (simp add: solve_math_problem_def complex_problem_def dict_def)
qed

theorem too_few_numbers_placeholder_witness:
  "solve_math_problem ''area of rectangle 5'' = complex_problem \<and>
   solve_math_problem ''what is 5 percent'' = complex_problem"
  using too_few_numbers_placeholder [of "''area of rectangle 5''"]
    too_few_numbers_placeholder [of "''what is 5 percent''"]
  by (simp add: string_defs)

end
